theory Spec2Isabelle
  imports Main "HOL-Library.Sublist"
begin

section \<open>The engine's interface, as Demonstration.py uses it\<close>

text \<open>
  Demonstration.py holds one class, \<open>CustomDataAlgorithm\<close>, with three methods. Everything
  else it names belongs to the trading engine that loads it. The engine's enumerations
  are given here with the members the script and the spec name, and a last constructor
  standing for the members they never mention.
\<close>

text \<open>
  Modelled from the spec: the engine's \<open>Resolution\<close> enumeration ("sampling granularity of
  a data feed (e.g., daily bars)"). The script names \<open>Resolution.Daily\<close> only.
\<close>

datatype Resolution = Daily | OtherResolution nat

text \<open>
  Modelled from the spec: the engine's \<open>OrderStatus\<close> enumeration ("one of an enumerated
  set including a filled terminal state", "e.g., filled, partially filled"). The script
  names \<open>OrderStatus.Filled\<close> only.
\<close>

datatype OrderStatus = Filled | PartiallyFilled | OtherStatus nat

text \<open>The class object \<open>MyCustomDataType\<close>, passed to \<open>AddData\<close> and to \<open>slice.Get\<close>.\<close>

datatype data_type = MyCustomDataType

text \<open>An instance of \<open>MyCustomDataType\<close>: the script reads its \<open>SomeCustomProperty\<close>.\<close>

record custom_data_record =
  SomeCustomProperty :: string

text \<open>
  A slice: \<open>slice.Get(T)\<close> is the dictionary of the records of type \<open>T\<close> of this time step,
  keyed by symbol. The dictionary is an association list read with \<open>map_of\<close>; it is
  truthy in Python exactly when it has an entry.
\<close>

record 'sym Slice =
  Get :: "data_type \<Rightarrow> ('sym \<times> custom_data_record) list"

record 'sym OrderEvent =
  Status :: OrderStatus
  Symbol :: 'sym

text \<open>
  What the engine hands back to the script: the \<open>Symbol\<close> of the security \<open>AddEquity\<close>
  returns, the \<open>Symbol\<close> of the one \<open>AddData\<close> returns, and the text a symbol is formatted
  to inside an f-string. They are parameters: every theorem below holds for every engine.
\<close>

record 'sym host =
  AddEquity_Symbol :: "string \<Rightarrow> Resolution \<Rightarrow> 'sym"
  AddData_Symbol :: "data_type \<Rightarrow> 'sym \<Rightarrow> 'sym"
  Symbol_str :: "'sym \<Rightarrow> string"

text \<open>
  The calls the script makes on the engine. The weight of \<open>SetHoldings\<close> is the Python
  integer the script passes (\<open>1\<close> or \<open>-1\<close>).
\<close>

datatype 'sym command =
    SetStartDate int int int
  | SetEndDate int int int
  | AddEquity string Resolution
  | AddData data_type 'sym
  | SetHoldings 'sym int
  | Debug string

datatype 'sym py_error = AttributeError string | KeyError 'sym

section \<open>The strategy instance\<close>

text \<open>
  \<open>attrs\<close> is the instance dictionary: the attributes assigned through \<open>self.name = ...\<close>.
  \<open>calls\<close> is the sequence of calls made on the engine so far, oldest first.
\<close>

record 'sym CustomDataAlgorithm =
  attrs :: "string \<rightharpoonup> 'sym"
  calls :: "'sym command list"

text \<open>
  How a method ends: it returned, or it raised. With it come the instance and the
  engine-owned argument object as the method leaves them.
\<close>

datatype 'sym outcome = Returned | Raised "'sym py_error"

record ('sym, 'arg) after =
  outcome :: "'sym outcome"
  self_after :: "'sym CustomDataAlgorithm"
  arg_after :: 'arg

definition returned :: "'sym CustomDataAlgorithm \<Rightarrow> 'arg \<Rightarrow> ('sym, 'arg) after" where
  "returned self arg = \<lparr>outcome = Returned, self_after = self, arg_after = arg\<rparr>"

definition raised ::
  "'sym py_error \<Rightarrow> 'sym CustomDataAlgorithm \<Rightarrow> 'arg \<Rightarrow> ('sym, 'arg) after" where
  "raised e self arg = \<lparr>outcome = Raised e, self_after = self, arg_after = arg\<rparr>"

text \<open>\<open>self.M(...)\<close> for a method \<open>M\<close> of the engine: the call joins the trace.\<close>

definition call :: "'sym command \<Rightarrow> 'sym CustomDataAlgorithm \<Rightarrow> 'sym CustomDataAlgorithm" where
  "call c self = self\<lparr>calls := calls self @ [c]\<rparr>"

text \<open>\<open>self.name = v\<close>\<close>

definition setattr :: "string \<Rightarrow> 'sym \<Rightarrow> 'sym CustomDataAlgorithm \<Rightarrow> 'sym CustomDataAlgorithm" where
  "setattr name v self = self\<lparr>attrs := (attrs self)(name \<mapsto> v)\<rparr>"

text \<open>
  \<open>self.name\<close>, read. The class defines three methods and no data attribute, and the
  names the script reads (\<open>custom_data_symbol\<close>, \<open>equity_symbol\<close>, \<open>equitySymbol\<close>) are
  taken to be no members of the engine's base class: each is found in the instance
  dictionary, or Python raises AttributeError.
\<close>

definition getattr :: "'sym CustomDataAlgorithm \<Rightarrow> string \<Rightarrow> 'sym py_error + 'sym" where
  "getattr self name =
     (case attrs self name of None \<Rightarrow> Inl (AttributeError name) | Some v \<Rightarrow> Inr v)"

text \<open>\<open>data[key]\<close>: a key-lookup error when the dictionary has no such key.\<close>

definition getitem :: "('sym \<times> 'v) list \<Rightarrow> 'sym \<Rightarrow> 'sym py_error + 'v" where
  "getitem data k = (case map_of data k of None \<Rightarrow> Inl (KeyError k) | Some v \<Rightarrow> Inr v)"

section \<open>The three methods of CustomDataAlgorithm\<close>

text \<open>
  \<^verbatim>\<open>
  def Initialize(self):
      self.SetStartDate(2020, 10, 7)
      self.SetEndDate(2020, 10, 11)
      self.equity_symbol = self.AddEquity("SPY", Resolution.Daily).Symbol
      self.custom_data_symbol = self.AddData(MyCustomDataType, self.equity_symbol).Symbol
  \<close>
\<close>

definition Initialize :: "'sym host \<Rightarrow> 'sym CustomDataAlgorithm \<Rightarrow> ('sym, unit) after" where
  "Initialize h self0 =
     (let self1 = call (SetStartDate 2020 10 7) self0;
          self2 = call (SetEndDate 2020 10 11) self1;
          self3 = call (AddEquity ''SPY'' Daily) self2;
          self4 = setattr ''equity_symbol'' (AddEquity_Symbol h ''SPY'' Daily) self3
      in case getattr self4 ''equity_symbol'' of
           Inl e \<Rightarrow> raised e self4 ()
         | Inr underlying \<Rightarrow>
             (let self5 = call (AddData MyCustomDataType underlying) self4;
                  self6 = setattr ''custom_data_symbol''
                            (AddData_Symbol h MyCustomDataType underlying) self5
              in returned self6 ()))"

text \<open>
  \<^verbatim>\<open>
  def OnData(self, slice):
      data = slice.Get(MyCustomDataType)
      if data:
          custom_data = data[self.custom_data_symbol]
          if custom_data.SomeCustomProperty == "buy":
              self.SetHoldings(self.equitySymbol, 1)
          elif custom_data.SomeCustomProperty == "sell":
              self.SetHoldings(self.equitySymbol, -1)
  \<close>
\<close>

definition OnData ::
  "'sym CustomDataAlgorithm \<Rightarrow> 'sym Slice \<Rightarrow> ('sym, 'sym Slice) after" where
  "OnData self slice =
     (let data = Get slice MyCustomDataType in
      if data \<noteq> [] then
        (case getattr self ''custom_data_symbol'' of
           Inl e \<Rightarrow> raised e self slice
         | Inr k \<Rightarrow>
             (case getitem data k of
                Inl e \<Rightarrow> raised e self slice
              | Inr custom_data \<Rightarrow>
                  if SomeCustomProperty custom_data = ''buy'' then
                    (case getattr self ''equitySymbol'' of
                       Inl e \<Rightarrow> raised e self slice
                     | Inr equity \<Rightarrow> returned (call (SetHoldings equity 1) self) slice)
                  else if SomeCustomProperty custom_data = ''sell'' then
                    (case getattr self ''equitySymbol'' of
                       Inl e \<Rightarrow> raised e self slice
                     | Inr equity \<Rightarrow> returned (call (SetHoldings equity (- 1)) self) slice)
                  else returned self slice))
      else returned self slice)"

text \<open>
  \<^verbatim>\<open>
  def OnOrderEvent(self, orderEvent):
      if orderEvent.Status == OrderStatus.Filled:
          self.Debug(f'Purchased Stock: {orderEvent.Symbol}')
  \<close>
\<close>

definition OnOrderEvent ::
  "'sym host \<Rightarrow> 'sym CustomDataAlgorithm \<Rightarrow> 'sym OrderEvent \<Rightarrow> ('sym, 'sym OrderEvent) after" where
  "OnOrderEvent h self orderEvent =
     (if Status orderEvent = Filled then
        returned
          (call (Debug (''Purchased Stock: '' @ Symbol_str h (Symbol orderEvent))) self)
          orderEvent
      else returned self orderEvent)"

section \<open>Instances the engine can build\<close>

text \<open>
  The class has no \<open>__init__\<close>: a new instance has an empty instance dictionary, and has
  made no call yet.
\<close>

definition fresh :: "'sym CustomDataAlgorithm" where
  "fresh = \<lparr>attrs = Map.empty, calls = []\<rparr>"

text \<open>
  The instances the engine can hold: it builds one, calls \<open>Initialize\<close> once, then calls
  the two handlers in any order, any number of times, with any arguments.
\<close>

inductive reachable :: "'sym host \<Rightarrow> 'sym CustomDataAlgorithm \<Rightarrow> bool" for h where
  initialized: "reachable h (self_after (Initialize h fresh))"
| data_arrived: "reachable h self \<Longrightarrow> reachable h (self_after (OnData self slice))"
| order_event: "reachable h self \<Longrightarrow> reachable h (self_after (OnOrderEvent h self ev))"

text \<open>The calls that register configuration with the engine.\<close>

primrec is_registration :: "'sym command \<Rightarrow> bool" where
  "is_registration (SetStartDate y m d) = True"
| "is_registration (SetEndDate y m d) = True"
| "is_registration (AddEquity t r) = True"
| "is_registration (AddData T s) = True"
| "is_registration (SetHoldings s w) = False"
| "is_registration (Debug msg) = False"

text \<open>The calls that register a subscription.\<close>

primrec is_subscription :: "'sym command \<Rightarrow> bool" where
  "is_subscription (SetStartDate y m d) = False"
| "is_subscription (SetEndDate y m d) = False"
| "is_subscription (AddEquity t r) = True"
| "is_subscription (AddData T s) = True"
| "is_subscription (SetHoldings s w) = False"
| "is_subscription (Debug msg) = False"

subsection \<open>A concrete engine and concrete inputs\<close>

text \<open>Symbols as their ticker text; the custom-data symbol carries the type's name.\<close>

definition example_host :: "string host" where
  "example_host =
     \<lparr>AddEquity_Symbol = (\<lambda>ticker r. ticker),
      AddData_Symbol = (\<lambda>T underlying. underlying @ ''.MyCustomDataType''),
      Symbol_str = (\<lambda>s. s)\<rparr>"

definition slice_with :: "(string \<times> string) list \<Rightarrow> string Slice" where
  "slice_with kvs = \<lparr>Get = (\<lambda>T. map (\<lambda>(k, v). (k, \<lparr>SomeCustomProperty = v\<rparr>)) kvs)\<rparr>"

definition buy_slice :: "string Slice" where
  "buy_slice = slice_with [(''SPY.MyCustomDataType'', ''buy'')]"

definition sell_slice :: "string Slice" where
  "sell_slice = slice_with [(''SPY.MyCustomDataType'', ''sell'')]"

definition hold_slice :: "string Slice" where
  "hold_slice = slice_with [(''SPY.MyCustomDataType'', ''hold'')]"

definition empty_slice :: "string Slice" where
  "empty_slice = slice_with []"


definition initialized_example :: "string CustomDataAlgorithm" where
  "initialized_example = self_after (Initialize example_host fresh)"

text \<open>An instance that has handled a filled order and an empty slice since \<open>Initialize\<close>.\<close>

definition later_example :: "string CustomDataAlgorithm" where
  "later_example =
     self_after (OnData
       (self_after (OnOrderEvent example_host initialized_example
          \<lparr>Status = Filled, Symbol = ''SPY''\<rparr>))
       empty_slice)"

text \<open>
  An instance on which somebody assigned \<open>equitySymbol\<close> from outside the class: no
  method of the class builds it.
\<close>

definition patched_example :: "string CustomDataAlgorithm" where
  "patched_example = setattr ''equitySymbol'' ''SPY'' initialized_example"

section \<open>Basic facts\<close>

lemma Initialize_eq:
  "Initialize h self =
     returned
       (self\<lparr>attrs := (attrs self)
          (''equity_symbol'' \<mapsto> AddEquity_Symbol h ''SPY'' Daily,
           ''custom_data_symbol'' \<mapsto>
             AddData_Symbol h MyCustomDataType (AddEquity_Symbol h ''SPY'' Daily)),
        calls := calls self @
          [SetStartDate 2020 10 7, SetEndDate 2020 10 11, AddEquity ''SPY'' Daily,
           AddData MyCustomDataType (AddEquity_Symbol h ''SPY'' Daily)]\<rparr>)
       ()"
  by (cases self) (simp add: Initialize_def Let_def call_def setattr_def getattr_def)

text \<open>Every path through \<open>OnData\<close> ends in one of four ways.\<close>

lemma OnData_cases:
  "OnData self slice = returned self slice
   \<or> (\<exists>e. OnData self slice = raised e self slice)
   \<or> (\<exists>q. OnData self slice = returned (call (SetHoldings q 1) self) slice)
   \<or> (\<exists>q. OnData self slice = returned (call (SetHoldings q (- 1)) self) slice)"
  by (auto simp: OnData_def Let_def split: sum.splits)

lemma OnData_attrs: "attrs (self_after (OnData self slice)) = attrs self"
  using OnData_cases [of self slice]
  by (auto simp: returned_def raised_def call_def)

lemma OnData_registrations:
  "filter is_registration (calls (self_after (OnData self slice)))
     = filter is_registration (calls self)"
  using OnData_cases [of self slice]
  by (auto simp: returned_def raised_def call_def)

lemma OnOrderEvent_attrs: "attrs (self_after (OnOrderEvent h self ev)) = attrs self"
  by (simp add: OnOrderEvent_def returned_def call_def)

lemma OnOrderEvent_registrations:
  "filter is_registration (calls (self_after (OnOrderEvent h self ev)))
     = filter is_registration (calls self)"
  by (simp add: OnOrderEvent_def returned_def call_def)

text \<open>
  In every instance the engine can hold, the instance dictionary and the registrations
  are those \<open>Initialize\<close> left.
\<close>

lemma reachable_configuration:
  assumes "reachable h self"
  shows "attrs self =
           [''equity_symbol'' \<mapsto> AddEquity_Symbol h ''SPY'' Daily,
            ''custom_data_symbol'' \<mapsto>
              AddData_Symbol h MyCustomDataType (AddEquity_Symbol h ''SPY'' Daily)]
         \<and> filter is_registration (calls self) =
           [SetStartDate 2020 10 7, SetEndDate 2020 10 11, AddEquity ''SPY'' Daily,
            AddData MyCustomDataType (AddEquity_Symbol h ''SPY'' Daily)]"
  using assms
proof (induction rule: reachable.induct)
  case initialized
  show ?case by (auto simp: Initialize_eq returned_def fresh_def)
next
  case (data_arrived self slice)
  then show ?case by (simp add: OnData_attrs OnData_registrations)
next
  case (order_event self ev)
  then show ?case by (simp add: OnOrderEvent_attrs OnOrderEvent_registrations)
qed

lemma reachable_initialized_example: "reachable example_host initialized_example"
  unfolding initialized_example_def by (rule reachable.initialized)

lemma reachable_later_example: "reachable example_host later_example"
  unfolding later_example_def
  by (intro reachable.data_arrived reachable.order_event reachable_initialized_example)

lemma attrs_initialized_example:
  "attrs initialized_example =
     [''equity_symbol'' \<mapsto> ''SPY'', ''custom_data_symbol'' \<mapsto> ''SPY.MyCustomDataType'']"
  by (auto simp: initialized_example_def Initialize_eq returned_def fresh_def example_host_def)

lemma calls_initialized_example:
  "calls initialized_example =
     [SetStartDate 2020 10 7, SetEndDate 2020 10 11, AddEquity ''SPY'' Daily,
      AddData MyCustomDataType ''SPY'']"
  by (simp add: initialized_example_def Initialize_eq returned_def fresh_def example_host_def)

section \<open>The data-arrival handler on a buy or sell signal\<close>

text \<open>
  C1. Claim: for every slice holding a record for the subscribed custom-data symbol whose
  signal is "buy", \<open>OnData\<close> issues exactly one \<open>SetHoldings\<close> with weight 1 for the equity
  registered by \<open>Initialize\<close>. The code does not: on the instance \<open>Initialize\<close> leaves, with
  a slice holding a "buy" record for the subscribed symbol, the read of
  \<open>self.equitySymbol\<close> raises AttributeError and no call reaches the engine.
\<close>

theorem OnData_buy_after_Initialize:
  "attrs initialized_example ''custom_data_symbol'' = Some ''SPY.MyCustomDataType''
   \<and> map_of (Get buy_slice MyCustomDataType) ''SPY.MyCustomDataType''
       = Some \<lparr>SomeCustomProperty = ''buy''\<rparr>
   \<and> outcome (OnData initialized_example buy_slice) = Raised (AttributeError ''equitySymbol'')
   \<and> calls (self_after (OnData initialized_example buy_slice)) = calls initialized_example"
  by (simp add: OnData_def Let_def getattr_def getitem_def raised_def
      attrs_initialized_example buy_slice_def slice_with_def)

text \<open>
  C2. Claim: for every slice holding a record for the subscribed custom-data symbol whose
  signal is "sell", \<open>OnData\<close> issues exactly one \<open>SetHoldings\<close> with weight -1 for the
  equity registered by \<open>Initialize\<close>. The code does not: with a "sell" record the read of
  \<open>self.equitySymbol\<close> raises AttributeError and no call reaches the engine.
\<close>

theorem OnData_sell_after_Initialize:
  "attrs initialized_example ''custom_data_symbol'' = Some ''SPY.MyCustomDataType''
   \<and> map_of (Get sell_slice MyCustomDataType) ''SPY.MyCustomDataType''
       = Some \<lparr>SomeCustomProperty = ''sell''\<rparr>
   \<and> outcome (OnData initialized_example sell_slice) = Raised (AttributeError ''equitySymbol'')
   \<and> calls (self_after (OnData initialized_example sell_slice)) = calls initialized_example"
  by (simp add: OnData_def Let_def getattr_def getitem_def raised_def
      attrs_initialized_example sell_slice_def slice_with_def)

text \<open>
  C3. The attribute read at both \<open>SetHoldings\<close> call sites is \<open>equitySymbol\<close>;
  \<open>Initialize\<close> assigns \<open>equity_symbol\<close>, and no method assigns \<open>equitySymbol\<close>. So in every
  instance the engine can hold after \<open>Initialize\<close>, \<open>equity_symbol\<close> is set,
  \<open>equitySymbol\<close> is not, and \<open>OnData\<close> on a slice with a "buy" or "sell" record for the
  subscribed symbol raises AttributeError for \<open>equitySymbol\<close>, leaving the instance and
  the slice as they were.
\<close>

theorem equitySymbol_read_raises:
  assumes "reachable h self"
    and "map_of (Get slice MyCustomDataType)
           (AddData_Symbol h MyCustomDataType (AddEquity_Symbol h ''SPY'' Daily)) = Some r"
    and "SomeCustomProperty r = ''buy'' \<or> SomeCustomProperty r = ''sell''"
  shows "attrs self ''equity_symbol'' = Some (AddEquity_Symbol h ''SPY'' Daily)
         \<and> attrs self ''equitySymbol'' = None
         \<and> OnData self slice = raised (AttributeError ''equitySymbol'') self slice"
proof -
  from assms(1) have a: "attrs self =
      [''equity_symbol'' \<mapsto> AddEquity_Symbol h ''SPY'' Daily,
       ''custom_data_symbol'' \<mapsto>
         AddData_Symbol h MyCustomDataType (AddEquity_Symbol h ''SPY'' Daily)]"
    by (simp add: reachable_configuration)
  from assms(2) have nonempty: "Get slice MyCustomDataType \<noteq> []"
    by auto
  have "OnData self slice = raised (AttributeError ''equitySymbol'') self slice"
    using assms(2,3) nonempty
    by (auto simp: OnData_def Let_def getattr_def getitem_def a)
  then show ?thesis by (simp add: a)
qed

theorem equitySymbol_read_raises_witness:
  "reachable example_host later_example
   \<and> map_of (Get sell_slice MyCustomDataType) ''SPY.MyCustomDataType''
       = Some \<lparr>SomeCustomProperty = ''sell''\<rparr>
   \<and> attrs later_example ''equity_symbol'' = Some ''SPY''
   \<and> attrs later_example ''equitySymbol'' = None
   \<and> OnData later_example sell_slice
       = raised (AttributeError ''equitySymbol'') later_example sell_slice"
proof -
  have r: "reachable example_host later_example"
    by (rule reachable_later_example)
  have m: "map_of (Get sell_slice MyCustomDataType)
             (AddData_Symbol example_host MyCustomDataType
               (AddEquity_Symbol example_host ''SPY'' Daily))
           = Some \<lparr>SomeCustomProperty = ''sell''\<rparr>"
    by (simp add: sell_slice_def slice_with_def example_host_def)
  have s: "SomeCustomProperty \<lparr>SomeCustomProperty = ''sell''\<rparr> = ''buy''
           \<or> SomeCustomProperty \<lparr>SomeCustomProperty = ''sell''\<rparr> = ''sell''"
    by simp
  show ?thesis
    using equitySymbol_read_raises [OF r m s] r m
    by (simp add: example_host_def)
qed

section \<open>The data-arrival handler when there is nothing to do\<close>


text \<open>
  Where the handler does do nothing: on every slice whose custom-data dictionary is
  empty, or holds a record for the subscribed symbol whose signal is neither "buy" nor
  "sell", \<open>OnData\<close> returns normally and leaves the instance (its attributes and the
  calls made so far) and the slice as they were.
\<close>

theorem OnData_nothing_to_do:
  assumes "Get slice MyCustomDataType = []
           \<or> (\<exists>k r. attrs self ''custom_data_symbol'' = Some k
                 \<and> map_of (Get slice MyCustomDataType) k = Some r
                 \<and> SomeCustomProperty r \<noteq> ''buy'' \<and> SomeCustomProperty r \<noteq> ''sell'')"
  shows "OnData self slice = returned self slice"
  using assms
  by (auto simp: OnData_def Let_def getattr_def getitem_def)

theorem OnData_nothing_to_do_witness:
  "Get empty_slice MyCustomDataType = []
   \<and> OnData initialized_example empty_slice = returned initialized_example empty_slice
   \<and> attrs later_example ''custom_data_symbol'' = Some ''SPY.MyCustomDataType''
   \<and> map_of (Get hold_slice MyCustomDataType) ''SPY.MyCustomDataType''
       = Some \<lparr>SomeCustomProperty = ''hold''\<rparr>
   \<and> OnData later_example hold_slice = returned later_example hold_slice"
proof -
  have e: "Get empty_slice MyCustomDataType = []"
    by (simp add: empty_slice_def slice_with_def)
  have a: "attrs later_example ''custom_data_symbol'' = Some ''SPY.MyCustomDataType''"
    using reachable_configuration [OF reachable_later_example]
    by (simp add: example_host_def)
  have m: "map_of (Get hold_slice MyCustomDataType) ''SPY.MyCustomDataType''
           = Some \<lparr>SomeCustomProperty = ''hold''\<rparr>"
    by (simp add: hold_slice_def slice_with_def)
  have "OnData initialized_example empty_slice = returned initialized_example empty_slice"
    using OnData_nothing_to_do [of empty_slice initialized_example] e by simp
  moreover have "OnData later_example hold_slice = returned later_example hold_slice"
    using OnData_nothing_to_do [of hold_slice later_example] a m by simp
  ultimately show ?thesis using e a m by simp
qed

section \<open>The unguarded lookup, and the bound on commands\<close>

text \<open>
  C9. When the slice's custom-data dictionary is not empty but has no entry for the
  subscribed symbol, \<open>OnData\<close> does not return: the lookup \<open>data[self.custom_data_symbol]\<close>
  is not guarded and raises a key-lookup error for that symbol.
\<close>

theorem OnData_missing_key_raises:
  assumes "Get slice MyCustomDataType \<noteq> []"
    and "attrs self ''custom_data_symbol'' = Some k"
    and "map_of (Get slice MyCustomDataType) k = None"
  shows "OnData self slice = raised (KeyError k) self slice"
  using assms
  by (simp add: OnData_def Let_def getattr_def getitem_def)

theorem OnData_missing_key_raises_witness:
  "Get (slice_with [(''QQQ.MyCustomDataType'', ''sell''), (''IWM.MyCustomDataType'', ''hold'')])
       MyCustomDataType \<noteq> []
   \<and> attrs later_example ''custom_data_symbol'' = Some ''SPY.MyCustomDataType''
   \<and> map_of (Get (slice_with [(''QQQ.MyCustomDataType'', ''sell''),
                               (''IWM.MyCustomDataType'', ''hold'')]) MyCustomDataType)
        ''SPY.MyCustomDataType'' = None
   \<and> OnData later_example
        (slice_with [(''QQQ.MyCustomDataType'', ''sell''), (''IWM.MyCustomDataType'', ''hold'')])
       = raised (KeyError ''SPY.MyCustomDataType'') later_example
           (slice_with [(''QQQ.MyCustomDataType'', ''sell''), (''IWM.MyCustomDataType'', ''hold'')])"
proof -
  let ?sl = "slice_with [(''QQQ.MyCustomDataType'', ''sell''), (''IWM.MyCustomDataType'', ''hold'')]"
  have n: "Get ?sl MyCustomDataType \<noteq> []"
    by (simp add: slice_with_def)
  have a: "attrs later_example ''custom_data_symbol'' = Some ''SPY.MyCustomDataType''"
    using reachable_configuration [OF reachable_later_example]
    by (simp add: example_host_def)
  have m: "map_of (Get ?sl MyCustomDataType) ''SPY.MyCustomDataType'' = None"
    by (simp add: slice_with_def)
  show ?thesis
    using OnData_missing_key_raises [OF n a m] n a m by simp
qed

text \<open>
  C10. One call of \<open>OnData\<close> adds at most one call to the trace, and the call it adds is
  \<open>SetHoldings\<close> with weight 1 or with weight -1, on every instance and every slice.
\<close>

theorem OnData_at_most_one_command:
  "\<exists>cmds. calls (self_after (OnData self slice)) = calls self @ cmds
     \<and> (cmds = [] \<or> (\<exists>q. cmds = [SetHoldings q 1]) \<or> (\<exists>q. cmds = [SetHoldings q (- 1)]))"
  using OnData_cases [of self slice]
  by (auto simp: returned_def raised_def call_def)

section \<open>The order-event handler\<close>

text \<open>
  C5. For every order event, \<open>OnOrderEvent\<close> returns normally; when the event's status is
  \<open>Filled\<close> it emits exactly one \<open>Debug\<close> message, "Purchased Stock: " followed by the
  event's symbol as text (so the message contains the symbol); for every other status it
  emits nothing. Nothing else of the instance changes.
\<close>

theorem OnOrderEvent_message_iff_filled:
  "OnOrderEvent h self ev =
     returned
       (self\<lparr>calls := calls self @
          (if Status ev = Filled
           then [Debug (''Purchased Stock: '' @ Symbol_str h (Symbol ev))] else [])\<rparr>)
       ev
   \<and> sublist (Symbol_str h (Symbol ev)) (''Purchased Stock: '' @ Symbol_str h (Symbol ev))"
proof -
  have "sublist (Symbol_str h (Symbol ev))
          (''Purchased Stock: '' @ Symbol_str h (Symbol ev) @ [])"
    by (rule sublist_appendI)
  then show ?thesis
    by (cases self) (simp add: OnOrderEvent_def call_def)
qed

section \<open>Initialization\<close>

text \<open>
  C6. \<open>Initialize\<close> returns normally and makes exactly four calls on the engine, in this
  order: start date 2020-10-07, end date 2020-10-11, an equity subscription for "SPY" at
  daily resolution, and a custom-data subscription for \<open>MyCustomDataType\<close> bound to the
  symbol the equity subscription returned (which it stores as \<open>equity_symbol\<close>). On a new
  instance these two subscriptions are all the subscriptions registered.
\<close>

theorem Initialize_registers:
  "outcome (Initialize h self) = Returned
   \<and> calls (self_after (Initialize h self)) =
       calls self @
         [SetStartDate 2020 10 7, SetEndDate 2020 10 11, AddEquity ''SPY'' Daily,
          AddData MyCustomDataType (AddEquity_Symbol h ''SPY'' Daily)]
   \<and> attrs (self_after (Initialize h self)) ''equity_symbol''
       = Some (AddEquity_Symbol h ''SPY'' Daily)
   \<and> filter is_subscription (calls (self_after (Initialize h fresh))) =
       [AddEquity ''SPY'' Daily, AddData MyCustomDataType (AddEquity_Symbol h ''SPY'' Daily)]"
  by (simp add: Initialize_eq returned_def fresh_def)

section \<open>What the handlers leave unchanged\<close>

text \<open>
  C7. \<open>OnData\<close> leaves the slice it was given, and \<open>OnOrderEvent\<close> the order event it was
  given, as they were, whether the handler returns or raises. All either handler does is
  add calls to the trace of calls on the engine: \<open>OnData\<close> adds \<open>SetHoldings\<close> calls only,
  \<open>OnOrderEvent\<close> adds \<open>Debug\<close> calls only.
\<close>

theorem handlers_only_read_arguments:
  "arg_after (OnData self slice) = slice
   \<and> arg_after (OnOrderEvent h self ev) = ev
   \<and> (\<exists>cmds. self_after (OnData self slice) = self\<lparr>calls := calls self @ cmds\<rparr>
         \<and> list_all (\<lambda>c. \<exists>q w. c = SetHoldings q w) cmds)
   \<and> (\<exists>cmds. self_after (OnOrderEvent h self ev) = self\<lparr>calls := calls self @ cmds\<rparr>
         \<and> list_all (\<lambda>c. \<exists>msg. c = Debug msg) cmds)"
proof -
  have a: "arg_after (OnData self slice) = slice"
    using OnData_cases [of self slice] by (auto simp: returned_def raised_def)
  have b: "arg_after (OnOrderEvent h self ev) = ev"
    by (simp add: OnOrderEvent_def returned_def)
  have unchanged: "self = self\<lparr>calls := calls self @ []\<rparr>"
    by (cases self) simp
  have c: "\<exists>cmds. self_after (OnData self slice) = self\<lparr>calls := calls self @ cmds\<rparr>
             \<and> list_all (\<lambda>c. \<exists>q w. c = SetHoldings q w) cmds"
  proof -
    consider "self_after (OnData self slice) = self"
      | q w where "self_after (OnData self slice) = self\<lparr>calls := calls self @ [SetHoldings q w]\<rparr>"
      using OnData_cases [of self slice] by (auto simp: returned_def raised_def call_def)
    then show ?thesis
    proof cases
      case 1
      with unchanged have "self_after (OnData self slice) = self\<lparr>calls := calls self @ []\<rparr>"
        by simp
      then show ?thesis by (intro exI [of _ "[]"]) simp
    next
      case 2
      then show ?thesis by (intro exI [of _ "[SetHoldings q w]"]) simp
    qed
  qed
  have d: "\<exists>cmds. self_after (OnOrderEvent h self ev) = self\<lparr>calls := calls self @ cmds\<rparr>
             \<and> list_all (\<lambda>c. \<exists>msg. c = Debug msg) cmds"
  proof (cases "Status ev = Filled")
    case True
    then show ?thesis
      by (intro exI [of _ "[Debug (''Purchased Stock: '' @ Symbol_str h (Symbol ev))]"])
        (simp add: OnOrderEvent_def returned_def call_def)
  next
    case False
    then have "self_after (OnOrderEvent h self ev) = self"
      by (simp add: OnOrderEvent_def returned_def)
    with unchanged have "self_after (OnOrderEvent h self ev) = self\<lparr>calls := calls self @ []\<rparr>"
      by simp
    then show ?thesis by (intro exI [of _ "[]"]) simp
  qed
  from a b c d show ?thesis by simp
qed

text \<open>
  C8. The configuration is set by \<open>Initialize\<close> and by nothing else. Each handler, on every
  instance, leaves the instance's attributes and the registrations made with the engine
  (date range and subscriptions) as they were. So in every instance the engine can hold
  after \<open>Initialize\<close>, the attributes are exactly \<open>equity_symbol\<close> and
  \<open>custom_data_symbol\<close> with the values \<open>Initialize\<close> gave them, and the registrations are
  exactly the four calls of \<open>Initialize\<close>, each made once.
\<close>

theorem configuration_set_by_Initialize_only:
  "attrs (self_after (OnData self slice)) = attrs self
   \<and> filter is_registration (calls (self_after (OnData self slice)))
       = filter is_registration (calls self)
   \<and> attrs (self_after (OnOrderEvent h self ev)) = attrs self
   \<and> filter is_registration (calls (self_after (OnOrderEvent h self ev)))
       = filter is_registration (calls self)
   \<and> (reachable h self' \<longrightarrow>
        attrs self' =
          [''equity_symbol'' \<mapsto> AddEquity_Symbol h ''SPY'' Daily,
           ''custom_data_symbol'' \<mapsto>
             AddData_Symbol h MyCustomDataType (AddEquity_Symbol h ''SPY'' Daily)]
        \<and> filter is_registration (calls self') =
          [SetStartDate 2020 10 7, SetEndDate 2020 10 11, AddEquity ''SPY'' Daily,
           AddData MyCustomDataType (AddEquity_Symbol h ''SPY'' Daily)])"
  using reachable_configuration [of h self']
  by (simp add: OnData_attrs OnData_registrations OnOrderEvent_attrs
      OnOrderEvent_registrations)

theorem configuration_set_by_Initialize_only_witness:
  "reachable example_host later_example
   \<and> calls later_example =
       [SetStartDate 2020 10 7, SetEndDate 2020 10 11, AddEquity ''SPY'' Daily,
        AddData MyCustomDataType ''SPY'', Debug ''Purchased Stock: SPY'']
   \<and> attrs later_example =
       [''equity_symbol'' \<mapsto> ''SPY'', ''custom_data_symbol'' \<mapsto> ''SPY.MyCustomDataType'']
   \<and> filter is_registration (calls later_example) =
       [SetStartDate 2020 10 7, SetEndDate 2020 10 11, AddEquity ''SPY'' Daily,
        AddData MyCustomDataType ''SPY'']"
proof -
  have r: "reachable example_host later_example"
    by (rule reachable_later_example)
  have c: "calls later_example =
       [SetStartDate 2020 10 7, SetEndDate 2020 10 11, AddEquity ''SPY'' Daily,
        AddData MyCustomDataType ''SPY'', Debug ''Purchased Stock: SPY'']"
    by (simp add: later_example_def OnData_def OnOrderEvent_def Let_def returned_def
        call_def empty_slice_def slice_with_def calls_initialized_example example_host_def)
  show ?thesis
    using configuration_set_by_Initialize_only
            [where h = example_host and self' = later_example] r c
    by (simp add: example_host_def)
qed

section \<open>The handler on an instance that has the attribute it reads\<close>

text \<open>
  On an instance whose dictionary does hold \<open>equitySymbol\<close> (assigned from outside the
  class), a "buy" record for the subscribed symbol makes \<open>OnData\<close> issue exactly
  \<open>SetHoldings\<close> of that attribute's value with weight 1, and return.
\<close>

theorem OnData_buy_with_equitySymbol:
  assumes "attrs self ''custom_data_symbol'' = Some k"
    and "map_of (Get slice MyCustomDataType) k = Some r"
    and "SomeCustomProperty r = ''buy''"
    and "attrs self ''equitySymbol'' = Some q"
  shows "OnData self slice = returned (call (SetHoldings q 1) self) slice"
proof -
  from assms(2) have "Get slice MyCustomDataType \<noteq> []" by auto
  with assms show ?thesis
    by (simp add: OnData_def Let_def getattr_def getitem_def)
qed

theorem OnData_buy_with_equitySymbol_witness:
  "attrs patched_example ''custom_data_symbol'' = Some ''SPY.MyCustomDataType''
   \<and> map_of (Get buy_slice MyCustomDataType) ''SPY.MyCustomDataType''
       = Some \<lparr>SomeCustomProperty = ''buy''\<rparr>
   \<and> attrs patched_example ''equitySymbol'' = Some ''SPY''
   \<and> OnData patched_example buy_slice
       = returned (call (SetHoldings ''SPY'' 1) patched_example) buy_slice"
proof -
  have a: "attrs patched_example ''custom_data_symbol'' = Some ''SPY.MyCustomDataType''"
    by (simp add: patched_example_def setattr_def attrs_initialized_example)
  have m: "map_of (Get buy_slice MyCustomDataType) ''SPY.MyCustomDataType''
           = Some \<lparr>SomeCustomProperty = ''buy''\<rparr>"
    by (simp add: buy_slice_def slice_with_def)
  have b: "SomeCustomProperty \<lparr>SomeCustomProperty = ''buy''\<rparr> = ''buy''"
    by simp
  have q: "attrs patched_example ''equitySymbol'' = Some ''SPY''"
    by (simp add: patched_example_def setattr_def)
  show ?thesis
    using OnData_buy_with_equitySymbol [OF a m b q] a m q by simp
qed

text \<open>
  On such an instance a "sell" record for the subscribed symbol makes \<open>OnData\<close> issue
  exactly \<open>SetHoldings\<close> of that attribute's value with weight -1, and return.
\<close>

theorem OnData_sell_with_equitySymbol:
  assumes "attrs self ''custom_data_symbol'' = Some k"
    and "map_of (Get slice MyCustomDataType) k = Some r"
    and "SomeCustomProperty r = ''sell''"
    and "attrs self ''equitySymbol'' = Some q"
  shows "OnData self slice = returned (call (SetHoldings q (- 1)) self) slice"
proof -
  from assms(2) have "Get slice MyCustomDataType \<noteq> []" by auto
  with assms show ?thesis
    by (simp add: OnData_def Let_def getattr_def getitem_def)
qed

theorem OnData_sell_with_equitySymbol_witness:
  "attrs patched_example ''custom_data_symbol'' = Some ''SPY.MyCustomDataType''
   \<and> map_of (Get sell_slice MyCustomDataType) ''SPY.MyCustomDataType''
       = Some \<lparr>SomeCustomProperty = ''sell''\<rparr>
   \<and> attrs patched_example ''equitySymbol'' = Some ''SPY''
   \<and> OnData patched_example sell_slice
       = returned (call (SetHoldings ''SPY'' (- 1)) patched_example) sell_slice"
proof -
  have a: "attrs patched_example ''custom_data_symbol'' = Some ''SPY.MyCustomDataType''"
    by (simp add: patched_example_def setattr_def attrs_initialized_example)
  have m: "map_of (Get sell_slice MyCustomDataType) ''SPY.MyCustomDataType''
           = Some \<lparr>SomeCustomProperty = ''sell''\<rparr>"
    by (simp add: sell_slice_def slice_with_def)
  have b: "SomeCustomProperty \<lparr>SomeCustomProperty = ''sell''\<rparr> = ''sell''"
    by simp
  have q: "attrs patched_example ''equitySymbol'' = Some ''SPY''"
    by (simp add: patched_example_def setattr_def)
  show ?thesis
    using OnData_sell_with_equitySymbol [OF a m b q] a m q by simp
qed

end
